theory Spec2Isabelle
  imports Main
begin

section \<open>Natours authentication controller (controllers/authController.js)\<close>

text \<open>
  The handlers of \<^verbatim>\<open>authController.js\<close>, and the \<^verbatim>\<open>protect\<close> of its earlier
  revision, are embedded as pure functions. A handler
  wrapped in \<^verbatim>\<open>catchAsync\<close> ends in one of two ways: it calls \<^verbatim>\<open>next(err)\<close>, or an
  awaited call throws and the exception reaches \<^verbatim>\<open>next\<close>; both are the left
  summand of the result. Otherwise it sends a response or calls \<^verbatim>\<open>next()\<close>, the
  right summand.
\<close>

subsection \<open>Errors\<close>

text \<open>
  Exceptions thrown by collaborators: the signing library (\<open>InvalidToken\<close> with the
  library's message, for a bad signature as for an expired token), the store
  (validators, unique index) and the JavaScript runtime (a property read on
  \<^verbatim>\<open>undefined\<close> or \<^verbatim>\<open>null\<close>). None of them carries a \<^verbatim>\<open>statusCode\<close>.
\<close>

datatype exn =
    InvalidToken string
  | ValidationError
  | DuplicateKeyError
  | TypeError

text \<open>
  What \<^verbatim>\<open>next\<close> receives: \<^verbatim>\<open>new AppError(message, statusCode)\<close> built by a
  handler, or an exception that propagated out of an awaited call.
\<close>

datatype error =
    AppError string nat
  | Uncaught exn

fun statusCode :: "error \<Rightarrow> nat option" where
  "statusCode (AppError m c) = Some c"
| "statusCode (Uncaught e) = None"

subsection \<open>User documents and requests\<close>

text \<open>
  A user document. \<open>password\<close> is \<open>None\<close> in a document loaded without that path;
  the optional fields are \<open>None\<close> when \<^verbatim>\<open>undefined\<close>.
\<close>

record user =
  user_id :: string
  name :: string
  email :: string
  role :: string
  password :: "string option"
  passwordConfirm :: "string option"
  passwordChangedAt :: "nat option"
  passwordResetToken :: "string option"
  passwordResetExpires :: "nat option"

text \<open>The payload \<^verbatim>\<open>jwt.verify\<close> resolves to: \<^verbatim>\<open>{ id, iat, exp }\<close>.\<close>

record decoded =
  tok_id :: string
  iat :: nat
  exp :: nat

text \<open>\<^verbatim>\<open>req.body\<close>: the fields the handlers destructure, \<open>None\<close> when absent.\<close>

record body =
  b_name :: "string option"
  b_email :: "string option"
  b_password :: "string option"
  b_passwordConfirm :: "string option"
  b_role :: "string option"
  b_passwordCurrent :: "string option"

text \<open>
  The parts of \<^verbatim>\<open>req\<close> the handlers read and write:
  \<^verbatim>\<open>req.headers.authorization\<close>, \<^verbatim>\<open>req.user\<close>, \<^verbatim>\<open>req.body\<close>, \<^verbatim>\<open>req.params.token\<close>,
  \<^verbatim>\<open>req.protocol\<close> and \<^verbatim>\<open>req.get("host")\<close> (\<open>None\<close> is \<^verbatim>\<open>undefined\<close>).
\<close>

record request =
  authorization :: "string option"
  req_user :: "user option"
  req_body :: body
  params_token :: string
  protocol :: string
  host :: "string option"

subsection \<open>JavaScript string and array primitives\<close>

text \<open>\<^verbatim>\<open>s.startsWith(p)\<close>.\<close>

definition startsWith :: "string \<Rightarrow> string \<Rightarrow> bool" where
  "startsWith s p = (take (length p) s = p)"

text \<open>
  \<^verbatim>\<open>s.split(c)\<close> for a one-character separator: one piece per separator plus one,
  empty pieces kept.
\<close>

fun js_split :: "char \<Rightarrow> string \<Rightarrow> string list" where
  "js_split c [] = [[]]"
| "js_split c (x # xs) =
     (if x = c then [] # js_split c xs
      else (case js_split c xs of [] \<Rightarrow> [[x]] | y # ys \<Rightarrow> (x # y) # ys))"

text \<open>\<^verbatim>\<open>xs[i]\<close>: \<^verbatim>\<open>undefined\<close> out of range.\<close>

definition at_index :: "'a list \<Rightarrow> nat \<Rightarrow> 'a option" where
  "at_index xs i = (if i < length xs then Some (xs ! i) else None)"

text \<open>A value is falsy when it is \<^verbatim>\<open>undefined\<close> or the empty string.\<close>

definition falsy :: "string option \<Rightarrow> bool" where
  "falsy v = (case v of None \<Rightarrow> True | Some s \<Rightarrow> s = [])"

text \<open>A value inside a template literal.\<close>

definition js_str :: "string option \<Rightarrow> string" where
  "js_str v = (case v of None \<Rightarrow> ''undefined'' | Some s \<Rightarrow> s)"

subsection \<open>Queries on the user collection\<close>

text \<open>
  Modelled from the spec: the schema of \<^verbatim>\<open>models/userModel.js\<close> is not among the
  sources. The spec has login "look up user including hash", which the code
  writes \<^verbatim>\<open>.select("+password")\<close>: the schema leaves \<open>password\<close> out of a query's
  result unless it is selected.
\<close>

definition hide_password :: "user \<Rightarrow> user" where
  "hide_password u = u\<lparr>password := None\<rparr>"

text \<open>\<^verbatim>\<open>User.findOne(filter)\<close>: the first document the filter holds of.\<close>

definition findOne :: "(user \<Rightarrow> bool) \<Rightarrow> user list \<Rightarrow> user option" where
  "findOne P us = map_option hide_password (find P us)"

text \<open>\<^verbatim>\<open>User.findOne(filter).select("+password")\<close>.\<close>

definition findOne_select_password :: "(user \<Rightarrow> bool) \<Rightarrow> user list \<Rightarrow> user option" where
  "findOne_select_password P us = find P us"

text \<open>\<^verbatim>\<open>User.findById(id)\<close> and \<^verbatim>\<open>User.findById(id).select("+password")\<close>.\<close>

definition findById :: "user list \<Rightarrow> string \<Rightarrow> user option" where
  "findById us i = findOne (\<lambda>u. user_id u = i) us"

definition findById_select_password :: "user list \<Rightarrow> string \<Rightarrow> user option" where
  "findById_select_password us i = findOne_select_password (\<lambda>u. user_id u = i) us"

subsection \<open>protect\<close>

text \<open>
  Step 1 of \<^verbatim>\<open>protect\<close>: the local \<^verbatim>\<open>token\<close>, assigned only when the header is
  truthy and starts with \<^verbatim>\<open>"Bearer "\<close>.
\<close>

definition get_token :: "request \<Rightarrow> string option" where
  "get_token req =
     (case authorization req of
        None \<Rightarrow> None
      | Some a \<Rightarrow>
          if a \<noteq> [] \<and> startsWith a ''Bearer '' then at_index (js_split CHR '' '' a) 1
          else None)"

text \<open>
  \<^verbatim>\<open>protect\<close> of \<^verbatim>\<open>controllers/authController.js\<close>. The parameters stand for the
  collaborators: \<open>verify t\<close> is \<^verbatim>\<open>await promisify(jwt.verify)(t, process.env.JWT_SECRET)\<close>
  (\<open>Inl\<close> when it throws), \<open>us\<close> is the user collection, and \<open>cpa u\<close> is the document
  method \<^verbatim>\<open>u.changedPasswordAfter\<close>.
\<close>

definition protect ::
  "(string \<Rightarrow> exn + decoded) \<Rightarrow> user list \<Rightarrow> (user \<Rightarrow> nat \<Rightarrow> bool) \<Rightarrow> request
     \<Rightarrow> error + request" where
  "protect verify us cpa req =
     (case get_token req of
        None \<Rightarrow> Inl (AppError ''You're not logged in. Please, log in to get access'' 401)
      | Some token \<Rightarrow>
          if token = [] then
            Inl (AppError ''You're not logged in. Please, log in to get access'' 401)
          else
            (case verify token of
               Inl e \<Rightarrow> Inl (Uncaught e)
             | Inr d \<Rightarrow>
                 (case findById us (tok_id d) of
                    None \<Rightarrow>
                      Inl (AppError ''The user belonging to this token, does no longer exist'' 401)
                  | Some freshUser \<Rightarrow>
                      if cpa freshUser (iat d) then
                        Inl (AppError ''User recently changed password. Please log in again'' 401)
                      else Inr (req\<lparr>req_user := Some freshUser\<rparr>))))"

text \<open>
  The second source file (an earlier revision of the controller) has its own
  \<^verbatim>\<open>protect\<close>; it is embedded separately, line by line.
\<close>

definition get_token_part_000 :: "request \<Rightarrow> string option" where
  "get_token_part_000 req =
     (case authorization req of
        None \<Rightarrow> None
      | Some a \<Rightarrow>
          if a \<noteq> [] \<and> startsWith a ''Bearer '' then at_index (js_split CHR '' '' a) 1
          else None)"

definition protect_part_000 ::
  "(string \<Rightarrow> exn + decoded) \<Rightarrow> user list \<Rightarrow> (user \<Rightarrow> nat \<Rightarrow> bool) \<Rightarrow> request
     \<Rightarrow> error + request" where
  "protect_part_000 verify us cpa req =
     (case get_token_part_000 req of
        None \<Rightarrow> Inl (AppError ''You're not logged in. Please, log in to get access'' 401)
      | Some token \<Rightarrow>
          if token = [] then
            Inl (AppError ''You're not logged in. Please, log in to get access'' 401)
          else
            (case verify token of
               Inl e \<Rightarrow> Inl (Uncaught e)
             | Inr d \<Rightarrow>
                 (case findById us (tok_id d) of
                    None \<Rightarrow>
                      Inl (AppError ''The user belonging to this token, does no longer exist'' 401)
                  | Some freshUser \<Rightarrow>
                      if cpa freshUser (iat d) then
                        Inl (AppError ''User recently changed password. Please log in again'' 401)
                      else Inr (req\<lparr>req_user := Some freshUser\<rparr>))))"

subsection \<open>restrictTo\<close>

text \<open>
  \<^verbatim>\<open>restrictTo(...roles)\<close> returns a middleware. Reading \<^verbatim>\<open>req.user.role\<close> when
  \<^verbatim>\<open>req.user\<close> is \<^verbatim>\<open>undefined\<close> throws a \<^verbatim>\<open>TypeError\<close>.
\<close>

definition restrictTo :: "string list \<Rightarrow> request \<Rightarrow> error + request" where
  "restrictTo roles req =
     (case req_user req of
        None \<Rightarrow> Inl (Uncaught TypeError)
      | Some u \<Rightarrow>
          if role u \<notin> set roles then
            Inl (AppError ''You do not have permission to perform this action'' 403)
          else Inr req)"

subsection \<open>Token codec\<close>

text \<open>\<^verbatim>\<open>process.env\<close>: the signing secret and the validity duration.\<close>

record env =
  JWT_SECRET :: string
  JWT_EXPIRES_IN :: nat

text \<open>
  Modelled from the spec: the signing library (\<^verbatim>\<open>jsonwebtoken\<close>) is not among the
  sources. The spec's Signer is "sign(payload, secret, expiry) -> token;
  verify(token, secret) -> payload | fails"; a token encodes the user identifier
  and the issued-at time, has a fixed validity duration from issuance, and
  verification "fails if signature invalid or token expired". A token is kept
  symbolic: its payload and the secret it was signed with. All times are readings
  of one clock, in milliseconds; a token is expired from its expiry time on.
\<close>

record jwt =
  jwt_id :: string
  jwt_iat :: nat
  jwt_exp :: nat
  jwt_key :: string

definition jwt_sign :: "string \<Rightarrow> string \<Rightarrow> nat \<Rightarrow> nat \<Rightarrow> jwt" where
  "jwt_sign i secret expiresIn now =
     \<lparr>jwt_id = i, jwt_iat = now, jwt_exp = now + expiresIn, jwt_key = secret\<rparr>"

definition jwt_verify :: "jwt \<Rightarrow> string \<Rightarrow> nat \<Rightarrow> exn + decoded" where
  "jwt_verify t secret now =
     (if jwt_key t \<noteq> secret then Inl (InvalidToken ''invalid signature'')
      else if jwt_exp t \<le> now then Inl (InvalidToken ''jwt expired'')
      else Inr \<lparr>tok_id = jwt_id t, iat = jwt_iat t, exp = jwt_exp t\<rparr>)"

text \<open>\<^verbatim>\<open>signToken\<close>, at the time \<open>now\<close> of the call.\<close>

definition signToken :: "env \<Rightarrow> nat \<Rightarrow> string \<Rightarrow> jwt" where
  "signToken e now i = jwt_sign i (JWT_SECRET e) (JWT_EXPIRES_IN e) now"

text \<open>
  The verification call of \<^verbatim>\<open>protect\<close>,
  \<^verbatim>\<open>promisify(jwt.verify)(token, process.env.JWT_SECRET)\<close>, at the time \<open>now\<close>.
\<close>

definition verifyToken :: "env \<Rightarrow> nat \<Rightarrow> jwt \<Rightarrow> exn + decoded" where
  "verifyToken e now t = jwt_verify t (JWT_SECRET e) now"

subsection \<open>Responses\<close>

text \<open>
  \<^verbatim>\<open>res.status(code).json(obj)\<close>: the status code and the fields of the object;
  \<open>data_user\<close> is \<^verbatim>\<open>data.user\<close>, the document handed to \<^verbatim>\<open>json\<close>.
\<close>

record response =
  res_status :: nat
  status :: string
  token :: "jwt option"
  data_user :: "user option"
  message :: "string option"

definition createSendToken :: "env \<Rightarrow> nat \<Rightarrow> user \<Rightarrow> nat \<Rightarrow> response" where
  "createSendToken e now u code =
     \<lparr>res_status = code, status = ''success'',
      token = Some (signToken e now (user_id u)),
      data_user = Some u, message = None\<rparr>"

subsection \<open>The store and the mailer\<close>

text \<open>The options object of \<^verbatim>\<open>sendEmail\<close>.\<close>

record mail =
  mail_email :: string
  subject :: string
  mail_message :: string

text \<open>
  The effects of a handler, in order: a document written by \<^verbatim>\<open>save\<close> (with the
  value of \<^verbatim>\<open>validateBeforeSave\<close>) or \<^verbatim>\<open>create\<close>, and a call of \<^verbatim>\<open>sendEmail\<close>.
\<close>

datatype event =
    Saved user bool
  | Emailed mail

record world =
  users :: "user list"
  trace :: "event list"

text \<open>
  Modelled from the spec: \<^verbatim>\<open>models/userModel.js\<close> is not among the sources. Its
  validators, its save middleware, its password check ("check(plaintext,
  storedHash) -> boolean", which never throws) and its default role are
  parameters. \<open>preSave m\<close> gets whether the password path was assigned and the
  document; by the spec's data model only "password-related fields [are] mutated
  on reset/update", so \<open>hooked\<close> takes the password hash, the confirmation and the
  password-changed timestamp from it and nothing else.
\<close>

record model =
  validate :: "user \<Rightarrow> bool"
  preSave :: "bool \<Rightarrow> user \<Rightarrow> user"
  correctPassword :: "string option \<Rightarrow> string option \<Rightarrow> bool"
  defaultRole :: string

definition hooked :: "model \<Rightarrow> bool \<Rightarrow> user \<Rightarrow> user" where
  "hooked m pwModified u =
     u\<lparr>password := password (preSave m pwModified u),
       passwordConfirm := passwordConfirm (preSave m pwModified u),
       passwordChangedAt := passwordChangedAt (preSave m pwModified u)\<rparr>"

text \<open>
  \<^verbatim>\<open>await user.save({ validateBeforeSave })\<close>: validation unless bypassed (it
  throws), then the middleware, then the write of the document over the stored
  one with its \<^verbatim>\<open>_id\<close>. A path that was not assigned is not written: when the
  password was not assigned, the stored password stays. The result is the
  document after the middleware, and the world after the write.
\<close>

definition save :: "model \<Rightarrow> bool \<Rightarrow> bool \<Rightarrow> user \<Rightarrow> world \<Rightarrow> exn + (user \<times> world)" where
  "save m validateBeforeSave pwModified u w =
     (if validateBeforeSave \<and> \<not> validate m u then Inl ValidationError
      else
        let u' = hooked m pwModified u in
        Inr (u',
             w\<lparr>users :=
                 map (\<lambda>x. if user_id x = user_id u
                          then (if pwModified then u' else u'\<lparr>password := password x\<rparr>)
                          else x) (users w),
               trace := trace w @ [Saved u' validateBeforeSave]\<rparr>))"

text \<open>
  Modelled from the spec: \<^verbatim>\<open>User.create\<close> (the model is not among the sources):
  "create user record from {name, email, password, passwordConfirm, role}", with
  failure code "400 validation" and "email (unique)". The new document gets the
  identifier \<open>newId\<close>; its reset fields are unset.
\<close>

definition create :: "model \<Rightarrow> string \<Rightarrow> body \<Rightarrow> world \<Rightarrow> exn + (user \<times> world)" where
  "create m newId b w =
     (case (b_name b, b_email b) of
        (Some n, Some e) \<Rightarrow>
          let u = \<lparr>user_id = newId, name = n, email = e,
                   role = (case b_role b of None \<Rightarrow> defaultRole m | Some r \<Rightarrow> r),
                   password = b_password b, passwordConfirm = b_passwordConfirm b,
                   passwordChangedAt = None, passwordResetToken = None,
                   passwordResetExpires = None\<rparr> in
          if \<not> validate m u then Inl ValidationError
          else if find (\<lambda>x. email x = e \<or> user_id x = newId) (users w) \<noteq> None
          then Inl DuplicateKeyError
          else
            let u' = hooked m True u in
            Inr (u', w\<lparr>users := users w @ [u'], trace := trace w @ [Saved u' True]\<rparr>)
      | _ \<Rightarrow> Inl ValidationError)"

text \<open>
  Modelled from the spec: the document method \<^verbatim>\<open>createPasswordResetToken\<close> (the model
  is not among the sources). The spec's \<open>generate\<close> returns the plain token "for
  out-of-band delivery only"; the "hashedToken (one-way hash of plainToken) and
  expiry are what gets persisted on the user record", with a validity window of
  10 minutes. \<open>rnd\<close> is the random plain token drawn, \<open>sha256_hex\<close> the hash.
\<close>

definition createPasswordResetToken ::
  "(string \<Rightarrow> string) \<Rightarrow> string \<Rightarrow> nat \<Rightarrow> user \<Rightarrow> string \<times> user" where
  "createPasswordResetToken sha256_hex rnd now u =
     (rnd, u\<lparr>passwordResetToken := Some (sha256_hex rnd),
             passwordResetExpires := Some (now + 10 * 60 * 1000)\<rparr>)"

subsection \<open>signup and login\<close>

definition signup ::
  "env \<Rightarrow> model \<Rightarrow> string \<Rightarrow> nat \<Rightarrow> request \<Rightarrow> world \<Rightarrow> (error + response) \<times> world" where
  "signup e m newId now req w =
     (case create m newId (req_body req) w of
        Inl x \<Rightarrow> (Inl (Uncaught x), w)
      | Inr (newUser, w') \<Rightarrow> (Inr (createSendToken e now newUser 201), w'))"

text \<open>The filter \<^verbatim>\<open>{ email }\<close>; every stored document has an email.\<close>

definition by_email :: "string option \<Rightarrow> user \<Rightarrow> bool" where
  "by_email e u = (e = Some (email u))"

definition login :: "env \<Rightarrow> model \<Rightarrow> nat \<Rightarrow> request \<Rightarrow> user list \<Rightarrow> error + response" where
  "login e m now req us =
     (let email = b_email (req_body req); password = b_password (req_body req) in
      if falsy email \<or> falsy password then
        Inl (AppError ''Please, provide email and password'' 400)
      else
        (case findOne_select_password (by_email email) us of
           None \<Rightarrow> Inl (AppError ''Incorrect email or password'' 401)
         | Some user \<Rightarrow>
             if \<not> correctPassword m password (user.password user) then
               Inl (AppError ''Incorrect email or password'' 401)
             else Inr (createSendToken e now user 200)))"

subsection \<open>forgotPassword\<close>

text \<open>
  \<open>sendEmail\<close> tells whether the mailer resolves (\<open>True\<close>) or throws; \<open>rnd\<close> is the
  random token the model draws and \<open>now\<close> the clock.
\<close>

definition resetURL :: "request \<Rightarrow> string \<Rightarrow> string" where
  "resetURL req resetToken =
     protocol req @ ''://'' @ js_str (host req) @ ''/api/v1/users/resetPassword/'' @ resetToken"

definition resetMail :: "request \<Rightarrow> user \<Rightarrow> string \<Rightarrow> mail" where
  "resetMail req u resetToken =
     \<lparr>mail_email = email u,
      subject = ''Your password reset token (valid for 10 minutes)'',
      mail_message =
        ''Forgot your password?'' @ [CHR 0x0A]
        @ ''Submit a new PATCH request with your new password and passwordConfirm to: ''
        @ resetURL req resetToken @ [CHR 0x0A]
        @ ''If you didn't forget your password, please ignore this email.''\<rparr>"

definition forgotPassword ::
  "model \<Rightarrow> (string \<Rightarrow> string) \<Rightarrow> (mail \<Rightarrow> bool) \<Rightarrow> string \<Rightarrow> nat \<Rightarrow> request \<Rightarrow> world
     \<Rightarrow> (error + response) \<times> world" where
  "forgotPassword m sha256_hex sendEmail rnd now req w =
     (let email = b_email (req_body req) in
      case findOne (by_email email) (users w) of
        None \<Rightarrow> (Inl (AppError (''There's no user with '' @ js_str email @ '' address'') 404), w)
      | Some user0 \<Rightarrow>
          let (resetToken, user1) = createPasswordResetToken sha256_hex rnd now user0 in
          (case save m False False user1 w of
             Inl x \<Rightarrow> (Inl (Uncaught x), w)
           | Inr (user2, w1) \<Rightarrow>
               let msg = resetMail req user2 resetToken;
                   w2 = w1\<lparr>trace := trace w1 @ [Emailed msg]\<rparr> in
               if sendEmail msg then
                 (Inr \<lparr>res_status = 200, status = ''success'', token = None,
                       data_user = None, message = Some ''Token sent to email''\<rparr>, w2)
               else
                 let user3 = user2\<lparr>passwordResetToken := None, passwordResetExpires := None\<rparr> in
                 (case save m False False user3 w2 of
                    Inl x \<Rightarrow> (Inl (Uncaught x), w2)
                  | Inr (user4, w3) \<Rightarrow>
                      (Inl (AppError ''There was an error sending the email. Try again later.'' 500),
                       w3))))"

subsection \<open>resetPassword\<close>

text \<open>
  The filter \<^verbatim>\<open>{ passwordResetToken: hashedToken, passwordResetExpires: { $gt: Date.now() } }\<close>.
\<close>

definition reset_filter :: "string \<Rightarrow> nat \<Rightarrow> user \<Rightarrow> bool" where
  "reset_filter hashedToken now u =
     (passwordResetToken u = Some hashedToken
      \<and> (case passwordResetExpires u of None \<Rightarrow> False | Some t \<Rightarrow> now < t))"

definition resetPassword ::
  "env \<Rightarrow> model \<Rightarrow> (string \<Rightarrow> string) \<Rightarrow> nat \<Rightarrow> request \<Rightarrow> world
     \<Rightarrow> (error + response) \<times> world" where
  "resetPassword e m sha256_hex now req w =
     (let hashedToken = sha256_hex (params_token req) in
      case findOne (reset_filter hashedToken now) (users w) of
        None \<Rightarrow> (Inl (AppError ''Token is invalid or has expired'' 400), w)
      | Some user0 \<Rightarrow>
          let user1 = user0\<lparr>password := b_password (req_body req),
                           passwordConfirm := b_passwordConfirm (req_body req),
                           passwordResetToken := None,
                           passwordResetExpires := None\<rparr> in
          (case save m True True user1 w of
             Inl x \<Rightarrow> (Inl (Uncaught x), w)
           | Inr (user2, w1) \<Rightarrow> (Inr (createSendToken e now user2 200), w1)))"

subsection \<open>updatePassword\<close>

text \<open>
  \<^verbatim>\<open>req.user._id\<close> throws when \<^verbatim>\<open>req.user\<close> is \<^verbatim>\<open>undefined\<close>, and
  \<^verbatim>\<open>user.correctPassword\<close> throws when the query found no document.
\<close>

definition updatePassword ::
  "env \<Rightarrow> model \<Rightarrow> nat \<Rightarrow> request \<Rightarrow> world \<Rightarrow> (error + response) \<times> world" where
  "updatePassword e m now req w =
     (let passwordCurrent = b_passwordCurrent (req_body req) in
      case req_user req of
        None \<Rightarrow> (Inl (Uncaught TypeError), w)
      | Some ru \<Rightarrow>
          (case findById_select_password (users w) (user_id ru) of
             None \<Rightarrow> (Inl (Uncaught TypeError), w)
           | Some user0 \<Rightarrow>
               if \<not> correctPassword m passwordCurrent (password user0) then
                 (Inl (AppError ''You current password is wrong'' 401), w)
               else
                 let user1 = user0\<lparr>password := b_password (req_body req),
                                  passwordConfirm := b_passwordConfirm (req_body req)\<rparr> in
                 (case save m True True user1 w of
                    Inl x \<Rightarrow> (Inl (Uncaught x), w)
                  | Inr (user2, w1) \<Rightarrow> (Inr (createSendToken e now user2 200), w1))))"

subsection \<open>changedPasswordAfter\<close>

text \<open>
  Modelled from the spec: the document method \<^verbatim>\<open>changedPasswordAfter\<close> (the model is
  not among the sources). By the spec a session is stale "if user's password-changed
  timestamp is later than the token's issued-at time"; a user who never changed the
  password has no such timestamp.
\<close>

definition changedPasswordAfter :: "user \<Rightarrow> nat \<Rightarrow> bool" where
  "changedPasswordAfter u JWTTimestamp =
     (case passwordChangedAt u of None \<Rightarrow> False | Some changed \<Rightarrow> JWTTimestamp < changed)"

subsection \<open>The reset-field invariant\<close>

text \<open>
  A document's reset-token hash and reset-token expiry are both set or both absent.
  The invariant of a world asks it of every stored document and of every document
  a \<^verbatim>\<open>save\<close> has written.
\<close>

definition reset_fields_inv :: "user \<Rightarrow> bool" where
  "reset_fields_inv u = ((passwordResetToken u = None) = (passwordResetExpires u = None))"

fun event_inv :: "event \<Rightarrow> bool" where
  "event_inv (Saved u v) = reset_fields_inv u"
| "event_inv (Emailed msg) = True"

definition world_inv :: "world \<Rightarrow> bool" where
  "world_inv w = (list_all reset_fields_inv (users w) \<and> list_all event_inv (trace w))"

text \<open>
  A handler result that is an error carrying the status code \<open>c\<close>.
\<close>

definition failed_with_status :: "error + 'a \<Rightarrow> nat \<Rightarrow> bool" where
  "failed_with_status r c = (case r of Inl x \<Rightarrow> statusCode x = Some c | Inr y \<Rightarrow> False)"

section \<open>Sample data\<close>

text \<open>
  Concrete collaborators and documents, for evaluating the handlers. \<open>sample_hash\<close>
  and the \<open>bcrypt:\<close> prefix stand in for the real digests.
\<close>

definition env0 :: env where
  "env0 = \<lparr>JWT_SECRET = ''s3cret'', JWT_EXPIRES_IN = 3600000\<rparr>"

definition sample_hash :: "string \<Rightarrow> string" where
  "sample_hash s = ''sha256_hex:'' @ s"

definition sample_model :: model where
  "sample_model =
     \<lparr>validate = (\<lambda>u. password u \<noteq> None \<and> passwordConfirm u = password u),
      preSave = (\<lambda>pwModified u.
        if pwModified
        then u\<lparr>password := map_option (\<lambda>p. ''bcrypt:'' @ p) (password u),
               passwordConfirm := None\<rparr>
        else u),
      correctPassword = (\<lambda>candidate h.
        candidate \<noteq> None \<and> h = map_option (\<lambda>p. ''bcrypt:'' @ p) candidate),
      defaultRole = ''user''\<rparr>"

definition alice :: user where
  "alice =
     \<lparr>user_id = ''u1'', name = ''Alice'', email = ''alice@example.com'', role = ''user'',
      password = Some ''bcrypt:pass1234'', passwordConfirm = None,
      passwordChangedAt = None, passwordResetToken = None, passwordResetExpires = None\<rparr>"

definition bob :: user where
  "bob =
     \<lparr>user_id = ''u2'', name = ''Bob'', email = ''bob@example.com'', role = ''admin'',
      password = Some ''bcrypt:hunter22'', passwordConfirm = None,
      passwordChangedAt = Some 2000, passwordResetToken = Some (sample_hash ''tok-bob''),
      passwordResetExpires = Some 5000\<rparr>"

definition no_body :: body where
  "no_body =
     \<lparr>b_name = None, b_email = None, b_password = None, b_passwordConfirm = None,
      b_role = None, b_passwordCurrent = None\<rparr>"

definition bare_request :: request where
  "bare_request =
     \<lparr>authorization = None, req_user = None, req_body = no_body, params_token = [],
      protocol = ''https'', host = Some ''natours.test''\<rparr>"

definition bearer_request :: request where
  "bearer_request = bare_request\<lparr>authorization := Some ''Bearer abc''\<rparr>"

definition verify_accepts_alice :: "string \<Rightarrow> exn + decoded" where
  "verify_accepts_alice t = Inr \<lparr>tok_id = ''u1'', iat = 1000, exp = 9000\<rparr>"

definition verify_accepts_bob :: "string \<Rightarrow> exn + decoded" where
  "verify_accepts_bob t = Inr \<lparr>tok_id = ''u2'', iat = 1000, exp = 9000\<rparr>"

definition verify_rejects :: "string \<Rightarrow> exn + decoded" where
  "verify_rejects t = Inl (InvalidToken ''invalid signature'')"

definition world_ab :: world where
  "world_ab = \<lparr>users = [alice, bob], trace = []\<rparr>"

definition reset_request :: request where
  "reset_request =
     bare_request\<lparr>params_token := ''tok-bob'',
       req_body := no_body\<lparr>b_password := Some ''newpass99'',
                           b_passwordConfirm := Some ''newpass99''\<rparr>\<rparr>"

definition forgot_request :: "string \<Rightarrow> request" where
  "forgot_request e = bare_request\<lparr>req_body := no_body\<lparr>b_email := Some e\<rparr>\<rparr>"

definition login_request :: "string option \<Rightarrow> string option \<Rightarrow> request" where
  "login_request e p = bare_request\<lparr>req_body := no_body\<lparr>b_email := e, b_password := p\<rparr>\<rparr>"

definition signup_request :: request where
  "signup_request =
     bare_request\<lparr>req_body := no_body\<lparr>b_name := Some ''Carol'',
       b_email := Some ''carol@example.com'', b_password := Some ''secret123'',
       b_passwordConfirm := Some ''secret123''\<rparr>\<rparr>"

definition update_request :: request where
  "update_request =
     bare_request\<lparr>req_user := Some (hide_password alice),
       req_body := no_body\<lparr>b_passwordCurrent := Some ''pass1234'',
         b_password := Some ''newpass99'', b_passwordConfirm := Some ''newpass99''\<rparr>\<rparr>"





definition mailer_up :: "mail \<Rightarrow> bool" where
  "mailer_up msg = True"

definition mailer_down :: "mail \<Rightarrow> bool" where
  "mailer_down msg = False"

section \<open>Properties\<close>

subsection \<open>Token extraction\<close>

lemma js_split_nosep: "c \<notin> set t \<Longrightarrow> js_split c t = [t]"
  by (induction t) auto

lemma js_split_sep: "c \<notin> set t \<Longrightarrow> js_split c (t @ c # r) = t # js_split c r"
  by (induction t) auto

lemma js_split_first:
  "c \<notin> set t \<Longrightarrow> r = [] \<or> (\<exists>r'. r = c # r') \<Longrightarrow> \<exists>ps. js_split c (t @ r) = t # ps"
  by (auto simp: js_split_nosep js_split_sep)

lemma get_token_Bearer:
  assumes "authorization req = Some (''Bearer '' @ t @ r)"
    and "CHR '' '' \<notin> set t" and "r = [] \<or> (\<exists>r'. r = CHR '' '' # r')"
  shows "get_token req = Some t"
proof -
  obtain ps where ps: "js_split CHR '' '' (t @ r) = t # ps"
    using js_split_first [OF assms(2,3)] by blast
  have "js_split CHR '' '' (''Bearer '' @ t @ r) = ''Bearer'' # t # ps"
    using js_split_sep [of "CHR '' ''" "''Bearer''" "t @ r"] ps by simp
  then show ?thesis
    using assms(1) by (simp add: get_token_def startsWith_def at_index_def)
qed

lemma get_token_no_Bearer:
  "authorization req = Some a \<Longrightarrow> \<not> startsWith a ''Bearer '' \<Longrightarrow> get_token req = None"
  by (simp add: get_token_def)

lemma startsWith_Bearer_decompose:
  assumes "startsWith a ''Bearer ''"
  shows "\<exists>t r. a = ''Bearer '' @ t @ r \<and> CHR '' '' \<notin> set t
           \<and> (r = [] \<or> (\<exists>r'. r = CHR '' '' # r'))"
proof -
  define b where "b = drop (length ''Bearer '') a"
  define t where "t = takeWhile (\<lambda>c. c \<noteq> CHR '' '') b"
  define r where "r = dropWhile (\<lambda>c. c \<noteq> CHR '' '') b"
  have "take (length ''Bearer '') a @ b = a"
    unfolding b_def by (rule append_take_drop_id)
  moreover have "take (length ''Bearer '') a = ''Bearer ''"
    using assms unfolding startsWith_def .
  moreover have "b = t @ r"
    unfolding t_def r_def by simp
  ultimately have a: "a = ''Bearer '' @ t @ r" by metis
  have t: "CHR '' '' \<notin> set t"
    unfolding t_def by (auto dest: set_takeWhileD)
  have r: "r = [] \<or> (\<exists>r'. r = CHR '' '' # r')"
  proof (cases r)
    case Nil
    then show ?thesis by simp
  next
    case (Cons x xs)
    then have "x = CHR '' ''"
      using hd_dropWhile [of "\<lambda>c. c \<noteq> CHR '' ''" b] unfolding r_def by auto
    with Cons show ?thesis by simp
  qed
  from a t r show ?thesis by blast
qed

text \<open>
  The token of \<^verbatim>\<open>protect\<close> is what follows \<^verbatim>\<open>"Bearer "\<close> up to the next space.
\<close>

lemma get_token_startsWith:
  assumes "authorization req = Some a" and "startsWith a ''Bearer ''"
  shows "get_token req = Some (takeWhile (\<lambda>c. c \<noteq> CHR '' '') (drop 7 a))"
proof -
  obtain t r where a: "a = ''Bearer '' @ t @ r" and t: "CHR '' '' \<notin> set t"
    and r: "r = [] \<or> (\<exists>r'. r = CHR '' '' # r')"
    using startsWith_Bearer_decompose [OF assms(2)] by blast
  have "takeWhile (\<lambda>c. c \<noteq> CHR '' '') (t @ r) = t"
    using t r by (auto simp: takeWhile_append2 takeWhile_tail)
  then have "takeWhile (\<lambda>c. c \<noteq> CHR '' '') (drop 7 a) = t"
    using a by simp
  moreover have "get_token req = Some t"
    using get_token_Bearer [OF _ t r] assms(1) a by simp
  ultimately show ?thesis by simp
qed

subsection \<open>The access guard\<close>

text \<open>
  Claim C1, amended. \<^verbatim>\<open>protect\<close> fails with an \<open>AppError\<close> of status 401 when the
  Authorization header is absent, when it does not start with \<^verbatim>\<open>"Bearer "\<close>, and when
  nothing stands between \<^verbatim>\<open>"Bearer "\<close> and the next space. When verification of the
  token throws, \<^verbatim>\<open>protect\<close> builds no error of its own: the verifier's exception goes
  to \<^verbatim>\<open>next\<close> unchanged. When no user has the decoded identifier, and when
  \<^verbatim>\<open>changedPasswordAfter\<close> holds of the user at the token's issued-at time, it fails
  with status 401. In every other case it attaches the user found to the request
  and continues.
\<close>

theorem protect_outcomes:
  "(authorization req = None \<longrightarrow>
      protect verify us cpa req =
        Inl (AppError ''You're not logged in. Please, log in to get access'' 401))
   \<and> (authorization req = Some a \<and> \<not> startsWith a ''Bearer '' \<longrightarrow>
      protect verify us cpa req =
        Inl (AppError ''You're not logged in. Please, log in to get access'' 401))
   \<and> (authorization req = Some a \<and> startsWith a ''Bearer ''
        \<and> takeWhile (\<lambda>c. c \<noteq> CHR '' '') (drop 7 a) = [] \<longrightarrow>
      protect verify us cpa req =
        Inl (AppError ''You're not logged in. Please, log in to get access'' 401))
   \<and> (authorization req = Some a \<and> startsWith a ''Bearer ''
        \<and> takeWhile (\<lambda>c. c \<noteq> CHR '' '') (drop 7 a) = t \<and> t \<noteq> [] \<longrightarrow>
      (verify t = Inl e \<longrightarrow> protect verify us cpa req = Inl (Uncaught e))
      \<and> (verify t = Inr d \<and> findById us (tok_id d) = None \<longrightarrow>
          protect verify us cpa req =
            Inl (AppError ''The user belonging to this token, does no longer exist'' 401))
      \<and> (verify t = Inr d \<and> findById us (tok_id d) = Some u \<and> cpa u (iat d) \<longrightarrow>
          protect verify us cpa req =
            Inl (AppError ''User recently changed password. Please log in again'' 401))
      \<and> (verify t = Inr d \<and> findById us (tok_id d) = Some u \<and> \<not> cpa u (iat d) \<longrightarrow>
          protect verify us cpa req = Inr (req\<lparr>req_user := Some u\<rparr>)))"
proof -
  have none: "authorization req = None \<Longrightarrow> get_token req = None"
    by (simp add: get_token_def)
  show ?thesis
    by (simp add: protect_def none get_token_no_Bearer get_token_startsWith)
qed

text \<open>
  The seven cases at concrete requests, with the spec's \<open>changedPasswordAfter\<close>.
\<close>

theorem protect_outcomes_witness:
  "protect verify_accepts_alice [alice, bob] changedPasswordAfter bare_request =
     Inl (AppError ''You're not logged in. Please, log in to get access'' 401)
   \<and> protect verify_accepts_alice [alice, bob] changedPasswordAfter
       (bare_request\<lparr>authorization := Some ''Basic abc''\<rparr>) =
     Inl (AppError ''You're not logged in. Please, log in to get access'' 401)
   \<and> protect verify_accepts_alice [alice, bob] changedPasswordAfter
       (bare_request\<lparr>authorization := Some ''Bearer ''\<rparr>) =
     Inl (AppError ''You're not logged in. Please, log in to get access'' 401)
   \<and> protect verify_rejects [alice, bob] changedPasswordAfter bearer_request =
     Inl (Uncaught (InvalidToken ''invalid signature''))
   \<and> protect verify_accepts_alice [bob] changedPasswordAfter bearer_request =
     Inl (AppError ''The user belonging to this token, does no longer exist'' 401)
   \<and> protect verify_accepts_bob [alice, bob] changedPasswordAfter bearer_request =
     Inl (AppError ''User recently changed password. Please log in again'' 401)
   \<and> protect verify_accepts_alice [alice, bob] changedPasswordAfter bearer_request =
     Inr (bearer_request\<lparr>req_user := Some (hide_password alice)\<rparr>)"
proof -
  let ?nl = "Inl (AppError ''You're not logged in. Please, log in to get access'' 401)"
  have 1: "protect verify_accepts_alice [alice, bob] changedPasswordAfter bare_request = ?nl"
  proof -
    have "authorization bare_request = None" by (simp add: bare_request_def)
    with protect_outcomes [where req = bare_request] show ?thesis by blast
  qed
  have 2: "protect verify_accepts_alice [alice, bob] changedPasswordAfter
       (bare_request\<lparr>authorization := Some ''Basic abc''\<rparr>) = ?nl"
  proof -
    have "authorization (bare_request\<lparr>authorization := Some ''Basic abc''\<rparr>) = Some ''Basic abc''
        \<and> \<not> startsWith ''Basic abc'' ''Bearer ''"
      by (simp add: startsWith_def)
    with protect_outcomes [where req = "bare_request\<lparr>authorization := Some ''Basic abc''\<rparr>"
        and a = "''Basic abc''"]
    show ?thesis by blast
  qed
  have 3: "protect verify_accepts_alice [alice, bob] changedPasswordAfter
       (bare_request\<lparr>authorization := Some ''Bearer ''\<rparr>) = ?nl"
  proof -
    have "authorization (bare_request\<lparr>authorization := Some ''Bearer ''\<rparr>) = Some ''Bearer ''
        \<and> startsWith ''Bearer '' ''Bearer ''
        \<and> takeWhile (\<lambda>c. c \<noteq> CHR '' '') (drop 7 ''Bearer '') = []"
      by (simp add: startsWith_def)
    with protect_outcomes [where req = "bare_request\<lparr>authorization := Some ''Bearer ''\<rparr>"
        and a = "''Bearer ''"]
    show ?thesis by blast
  qed
  have hdr: "authorization bearer_request = Some ''Bearer abc''
        \<and> startsWith ''Bearer abc'' ''Bearer ''
        \<and> takeWhile (\<lambda>c. c \<noteq> CHR '' '') (drop 7 ''Bearer abc'') = ''abc'' \<and> ''abc'' \<noteq> []"
    by (simp add: startsWith_def bearer_request_def)
  have 4: "protect verify_rejects [alice, bob] changedPasswordAfter bearer_request =
     Inl (Uncaught (InvalidToken ''invalid signature''))"
  proof -
    have "verify_rejects ''abc'' = Inl (InvalidToken ''invalid signature'')"
      by (simp add: verify_rejects_def)
    with hdr protect_outcomes [where req = bearer_request and a = "''Bearer abc''"
        and t = "''abc''" and verify = verify_rejects
        and e = "InvalidToken ''invalid signature''"]
    show ?thesis by blast
  qed
  have 5: "protect verify_accepts_alice [bob] changedPasswordAfter bearer_request =
     Inl (AppError ''The user belonging to this token, does no longer exist'' 401)"
  proof -
    have "verify_accepts_alice ''abc'' = Inr \<lparr>tok_id = ''u1'', iat = 1000, exp = 9000\<rparr>
        \<and> findById [bob] (tok_id \<lparr>tok_id = ''u1'', iat = 1000, exp = 9000\<rparr>) = None"
      by (simp add: verify_accepts_alice_def findById_def findOne_def bob_def)
    with hdr protect_outcomes [where req = bearer_request and a = "''Bearer abc''"
        and t = "''abc''" and verify = verify_accepts_alice and us = "[bob]"
        and d = "\<lparr>tok_id = ''u1'', iat = 1000, exp = 9000\<rparr>"]
    show ?thesis by blast
  qed
  have 6: "protect verify_accepts_bob [alice, bob] changedPasswordAfter bearer_request =
     Inl (AppError ''User recently changed password. Please log in again'' 401)"
  proof -
    have "verify_accepts_bob ''abc'' = Inr \<lparr>tok_id = ''u2'', iat = 1000, exp = 9000\<rparr>
        \<and> findById [alice, bob] (tok_id \<lparr>tok_id = ''u2'', iat = 1000, exp = 9000\<rparr>)
            = Some (hide_password bob)
        \<and> changedPasswordAfter (hide_password bob) (iat \<lparr>tok_id = ''u2'', iat = 1000, exp = 9000\<rparr>)"
      by (simp add: verify_accepts_bob_def findById_def findOne_def bob_def alice_def
          hide_password_def changedPasswordAfter_def)
    with hdr protect_outcomes [where req = bearer_request and a = "''Bearer abc''"
        and t = "''abc''" and verify = verify_accepts_bob and us = "[alice, bob]"
        and d = "\<lparr>tok_id = ''u2'', iat = 1000, exp = 9000\<rparr>" and u = "hide_password bob"
        and cpa = changedPasswordAfter]
    show ?thesis by blast
  qed
  have 7: "protect verify_accepts_alice [alice, bob] changedPasswordAfter bearer_request =
     Inr (bearer_request\<lparr>req_user := Some (hide_password alice)\<rparr>)"
  proof -
    have "verify_accepts_alice ''abc'' = Inr \<lparr>tok_id = ''u1'', iat = 1000, exp = 9000\<rparr>
        \<and> findById [alice, bob] (tok_id \<lparr>tok_id = ''u1'', iat = 1000, exp = 9000\<rparr>)
            = Some (hide_password alice)
        \<and> \<not> changedPasswordAfter (hide_password alice)
              (iat \<lparr>tok_id = ''u1'', iat = 1000, exp = 9000\<rparr>)"
      by (simp add: verify_accepts_alice_def findById_def findOne_def alice_def
          hide_password_def changedPasswordAfter_def)
    with hdr protect_outcomes [where req = bearer_request and a = "''Bearer abc''"
        and t = "''abc''" and verify = verify_accepts_alice and us = "[alice, bob]"
        and d = "\<lparr>tok_id = ''u1'', iat = 1000, exp = 9000\<rparr>" and u = "hide_password alice"
        and cpa = changedPasswordAfter]
    show ?thesis by blast
  qed
  from 1 2 3 4 5 6 7 show ?thesis by blast
qed

text \<open>
  Claim C1 as stated has verification failure end in status 401. A rejected token
  ends in the verifier's exception, which carries no status code.
\<close>

theorem protect_verification_failure_counterexample:
  "verify_rejects ''abc'' = Inl (InvalidToken ''invalid signature'')
   \<and> protect verify_rejects [alice] changedPasswordAfter bearer_request =
       Inl (Uncaught (InvalidToken ''invalid signature''))
   \<and> \<not> failed_with_status
         (protect verify_rejects [alice] changedPasswordAfter bearer_request) 401"
  by (simp add: protect_def get_token_def startsWith_def at_index_def failed_with_status_def
      verify_rejects_def bearer_request_def)

text \<open>
  Claim C10. The \<^verbatim>\<open>protect\<close> of the earlier revision and the \<^verbatim>\<open>protect\<close> of
  \<^verbatim>\<open>controllers/authController.js\<close> agree on every request, verifier, collection and
  \<^verbatim>\<open>changedPasswordAfter\<close>: the same error, or the same user attached.
\<close>

theorem protect_part_000_eq:
  "protect_part_000 verify us cpa req = protect verify us cpa req"
  by (simp add: protect_part_000_def protect_def get_token_part_000_def get_token_def)

subsection \<open>The role gate\<close>

text \<open>
  Claim C9. With a user on the request, the middleware of \<^verbatim>\<open>restrictTo(...roles)\<close>
  passes the request on, unchanged, exactly when the user's role is among the roles,
  and fails with status 403 otherwise. A user with role admin passes
  \<^verbatim>\<open>restrictTo("admin", "lead-guide")\<close>; a user with role user fails \<^verbatim>\<open>restrictTo("admin")\<close>
  with 403.
\<close>

theorem restrictTo_role_gate:
  "restrictTo roles (req\<lparr>req_user := Some u\<rparr>) =
     (if role u \<in> set roles then Inr (req\<lparr>req_user := Some u\<rparr>)
      else Inl (AppError ''You do not have permission to perform this action'' 403))
   \<and> restrictTo [''admin'', ''lead-guide''] (req\<lparr>req_user := Some (u\<lparr>role := ''admin''\<rparr>)\<rparr>) =
       Inr (req\<lparr>req_user := Some (u\<lparr>role := ''admin''\<rparr>)\<rparr>)
   \<and> restrictTo [''admin''] (req\<lparr>req_user := Some (u\<lparr>role := ''user''\<rparr>)\<rparr>) =
       Inl (AppError ''You do not have permission to perform this action'' 403)"
  by (simp add: restrictTo_def)

subsection \<open>Token codec\<close>

text \<open>
  Claim C2. A token issued by \<^verbatim>\<open>signToken\<close> for an identifier at time \<open>now\<close>, verified
  under the same environment at time \<open>t\<close>: before the configured duration has elapsed
  the payload carries that identifier; once it has elapsed verification fails with
  \<open>InvalidToken\<close>.
\<close>

theorem signToken_verify_roundtrip:
  "(t < now + JWT_EXPIRES_IN e \<longrightarrow>
      verifyToken e t (signToken e now i) =
        Inr \<lparr>tok_id = i, iat = now, exp = now + JWT_EXPIRES_IN e\<rparr>)
   \<and> (now + JWT_EXPIRES_IN e \<le> t \<longrightarrow>
      verifyToken e t (signToken e now i) = Inl (InvalidToken ''jwt expired''))"
  by (simp add: verifyToken_def signToken_def jwt_verify_def jwt_sign_def)

theorem signToken_verify_roundtrip_witness:
  "(5000::nat) < 1000 + JWT_EXPIRES_IN env0
   \<and> verifyToken env0 5000 (signToken env0 1000 ''u1'') =
        Inr \<lparr>tok_id = ''u1'', iat = 1000, exp = 1000 + JWT_EXPIRES_IN env0\<rparr>
   \<and> 1000 + JWT_EXPIRES_IN env0 \<le> (3601000::nat)
   \<and> verifyToken env0 3601000 (signToken env0 1000 ''u1'') = Inl (InvalidToken ''jwt expired'')"
proof -
  have a: "(5000::nat) < 1000 + JWT_EXPIRES_IN env0" by (simp add: env0_def)
  have b: "1000 + JWT_EXPIRES_IN env0 \<le> (3601000::nat)" by (simp add: env0_def)
  show ?thesis
    using a b signToken_verify_roundtrip [of 5000 1000 env0 "''u1''"]
      signToken_verify_roundtrip [of 3601000 1000 env0 "''u1''"]
    by simp
qed

subsection \<open>login\<close>

text \<open>
  Claim C8. \<^verbatim>\<open>login\<close> fails with status 400 when the email or the password is missing
  (or empty). With both present it fails with status 401 and the message "Incorrect
  email or password" when no user has the email, and when the password check fails.
  Any two runs of \<^verbatim>\<open>login\<close> that fail with status 401 fail with the same error.
\<close>

theorem login_failures:
  "(falsy (b_email (req_body req)) \<or> falsy (b_password (req_body req)) \<longrightarrow>
      login e m now req us = Inl (AppError ''Please, provide email and password'' 400))
   \<and> (\<not> falsy (b_email (req_body req)) \<and> \<not> falsy (b_password (req_body req))
        \<and> (\<forall>u \<in> set us. b_email (req_body req) \<noteq> Some (email u)) \<longrightarrow>
      login e m now req us = Inl (AppError ''Incorrect email or password'' 401))
   \<and> (\<not> falsy (b_email (req_body req)) \<and> \<not> falsy (b_password (req_body req))
        \<and> find (by_email (b_email (req_body req))) us = Some u
        \<and> \<not> correctPassword m (b_password (req_body req)) (password u) \<longrightarrow>
      login e m now req us = Inl (AppError ''Incorrect email or password'' 401))
   \<and> (login e m now req us = Inl x \<and> statusCode x = Some 401
        \<and> login e' m' now' req' us' = Inl x' \<and> statusCode x' = Some 401 \<longrightarrow>
      x = x')"
proof (intro conjI impI)
  assume "falsy (b_email (req_body req)) \<or> falsy (b_password (req_body req))"
  then show "login e m now req us = Inl (AppError ''Please, provide email and password'' 400)"
    by (auto simp: login_def Let_def)
next
  assume h: "\<not> falsy (b_email (req_body req)) \<and> \<not> falsy (b_password (req_body req))
        \<and> (\<forall>u \<in> set us. b_email (req_body req) \<noteq> Some (email u))"
  then have "find (by_email (b_email (req_body req))) us = None"
    by (simp add: find_None_iff by_email_def)
  with h show "login e m now req us = Inl (AppError ''Incorrect email or password'' 401)"
    by (simp add: login_def Let_def findOne_select_password_def)
next
  assume "\<not> falsy (b_email (req_body req)) \<and> \<not> falsy (b_password (req_body req))
        \<and> find (by_email (b_email (req_body req))) us = Some u
        \<and> \<not> correctPassword m (b_password (req_body req)) (password u)"
  then show "login e m now req us = Inl (AppError ''Incorrect email or password'' 401)"
    by (simp add: login_def Let_def findOne_select_password_def)
next
  have same: "\<And>e m now req us x. login e m now req us = Inl x \<Longrightarrow> statusCode x = Some 401 \<Longrightarrow>
      x = AppError ''Incorrect email or password'' 401"
    by (auto simp: login_def Let_def split: if_splits option.splits)
  assume "login e m now req us = Inl x \<and> statusCode x = Some 401
        \<and> login e' m' now' req' us' = Inl x' \<and> statusCode x' = Some 401"
  then show "x = x'"
    using same [of e m now req us x] same [of e' m' now' req' us' x'] by simp
qed

theorem login_failures_witness:
  "login env0 sample_model 1000 (login_request (Some ''alice@example.com'') None) [alice, bob] =
     Inl (AppError ''Please, provide email and password'' 400)
   \<and> login env0 sample_model 1000
       (login_request (Some ''carol@example.com'') (Some ''pass1234'')) [alice, bob] =
     Inl (AppError ''Incorrect email or password'' 401)
   \<and> login env0 sample_model 1000
       (login_request (Some ''alice@example.com'') (Some ''wrong'')) [alice, bob] =
     Inl (AppError ''Incorrect email or password'' 401)
   \<and> login env0 sample_model 1000
       (login_request (Some ''carol@example.com'') (Some ''pass1234'')) [alice, bob] =
     login env0 sample_model 7000
       (login_request (Some ''alice@example.com'') (Some ''wrong'')) [alice]"
proof -
  let ?missing = "login_request (Some ''alice@example.com'') None"
  let ?unknown = "login_request (Some ''carol@example.com'') (Some ''pass1234'')"
  let ?wrong = "login_request (Some ''alice@example.com'') (Some ''wrong'')"
  have 1: "login env0 sample_model 1000 ?missing [alice, bob] =
     Inl (AppError ''Please, provide email and password'' 400)"
  proof -
    have "falsy (b_password (req_body ?missing))"
      by (simp add: falsy_def login_request_def)
    with login_failures [where req = ?missing] show ?thesis by blast
  qed
  have 2: "login env0 sample_model 1000 ?unknown [alice, bob] =
     Inl (AppError ''Incorrect email or password'' 401)"
  proof -
    have "\<not> falsy (b_email (req_body ?unknown)) \<and> \<not> falsy (b_password (req_body ?unknown))
        \<and> (\<forall>u \<in> set [alice, bob]. b_email (req_body ?unknown) \<noteq> Some (email u))"
      by (simp add: falsy_def login_request_def alice_def bob_def)
    with login_failures [where req = ?unknown and us = "[alice, bob]"] show ?thesis by blast
  qed
  have 3: "login env0 sample_model now ?wrong us =
     Inl (AppError ''Incorrect email or password'' 401)"
    if "us = [alice, bob] \<or> us = [alice]" for now us
  proof -
    have "\<not> falsy (b_email (req_body ?wrong)) \<and> \<not> falsy (b_password (req_body ?wrong))
        \<and> find (by_email (b_email (req_body ?wrong))) us = Some alice
        \<and> \<not> correctPassword sample_model (b_password (req_body ?wrong)) (password alice)"
      using that by (auto simp: falsy_def by_email_def login_request_def alice_def bob_def
          sample_model_def)
    with login_failures [where req = ?wrong and us = us and u = alice and m = sample_model]
    show ?thesis by blast
  qed
  have 4: "login env0 sample_model 1000 ?unknown [alice, bob] =
     login env0 sample_model 7000 ?wrong [alice]"
  proof -
    have "statusCode (AppError ''Incorrect email or password'' 401) = Some 401" by simp
    with 2 3 [of "[alice]" 7000]
      login_failures [where req = ?unknown and us = "[alice, bob]" and e = env0
        and m = sample_model and now = 1000
        and x = "AppError ''Incorrect email or password'' 401"
        and req' = ?wrong and us' = "[alice]" and e' = env0 and m' = sample_model
        and now' = 7000 and x' = "AppError ''Incorrect email or password'' 401"]
    show ?thesis by simp
  qed
  from 1 2 3 [of "[alice, bob]" 1000] 4 show ?thesis by simp
qed

text \<open>
  Claim C4 fails at a successful login: the document fetched with
  \<^verbatim>\<open>.select("+password")\<close> goes to \<^verbatim>\<open>createSendToken\<close> as it is, and the response
  carries it with the stored password hash.
\<close>

theorem login_response_carries_password_hash:
  "login env0 sample_model 1000
     (login_request (Some ''alice@example.com'') (Some ''pass1234'')) [alice, bob] =
     Inr (createSendToken env0 1000 alice 200)
   \<and> data_user (createSendToken env0 1000 alice 200) = Some alice
   \<and> password alice = Some ''bcrypt:pass1234''"
  by (simp add: login_def findOne_select_password_def by_email_def falsy_def
      createSendToken_def Let_def login_request_def alice_def bob_def sample_model_def)

text \<open>
  In general, the user of a successful login response is a stored document, the
  one whose password hash the check has just read.
\<close>

lemma login_sends_selected_document:
  assumes "login e m now req us = Inr r"
  shows "\<exists>u \<in> set us. data_user r = Some u \<and> res_status r = 200
           \<and> correctPassword m (b_password (req_body req)) (password u)"
  using assms
  by (auto simp: login_def Let_def findOne_select_password_def createSendToken_def
      find_Some_iff split: if_splits option.splits)

subsection \<open>The store\<close>

text \<open>
  The save middleware leaves the identifier, the email and the reset fields alone;
  a query that matches no stored document finds none.
\<close>

lemma hooked_reset_fields:
  "passwordResetToken (hooked m b u) = passwordResetToken u"
  "passwordResetExpires (hooked m b u) = passwordResetExpires u"
  "user_id (hooked m b u) = user_id u"
  "email (hooked m b u) = email u"
  by (simp_all add: hooked_def)

lemma find_None_findOne: "find P us = None \<Longrightarrow> findOne P us = None"
  by (simp add: findOne_def)

subsection \<open>resetPassword\<close>

text \<open>
  Claim C5. When no stored user has the hash of the incoming token as its reset
  token together with an expiry later than now, \<^verbatim>\<open>resetPassword\<close> fails with status
  400 and the message "Token is invalid or has expired", and the world is the one it
  started from: no document is written, no password changes.
\<close>

theorem resetPassword_no_match:
  assumes "\<forall>u \<in> set (users w). \<forall>t.
             passwordResetToken u = Some (sha256_hex (params_token req))
             \<and> passwordResetExpires u = Some t \<longrightarrow> t \<le> now"
  shows "resetPassword e m sha256_hex now req w =
           (Inl (AppError ''Token is invalid or has expired'' 400), w)"
proof -
  have "\<forall>u \<in> set (users w). \<not> reset_filter (sha256_hex (params_token req)) now u"
    using assms by (auto simp: reset_filter_def split: option.splits)
  then have "find (reset_filter (sha256_hex (params_token req)) now) (users w) = None"
    by (simp add: find_None_iff)
  then show ?thesis
    by (simp add: resetPassword_def find_None_findOne)
qed

text \<open>
  Bob's token has expired at time 6000: the request with the right plain token
  fails, and the world stays.
\<close>

theorem resetPassword_no_match_witness:
  "passwordResetToken bob = Some (sample_hash (params_token reset_request))
   \<and> passwordResetExpires bob = Some 5000
   \<and> resetPassword env0 sample_model sample_hash 6000 reset_request world_ab =
       (Inl (AppError ''Token is invalid or has expired'' 400), world_ab)"
proof -
  have "\<forall>u \<in> set (users world_ab). \<forall>t.
          passwordResetToken u = Some (sample_hash (params_token reset_request))
          \<and> passwordResetExpires u = Some t \<longrightarrow> t \<le> 6000"
    by (simp add: world_ab_def alice_def bob_def reset_request_def)
  from resetPassword_no_match [where sha256_hex = sample_hash and req = reset_request
      and w = world_ab and now = 6000 and e = env0 and m = sample_model, OF this]
  show ?thesis by (simp add: world_ab_def alice_def bob_def reset_request_def)
qed

text \<open>
  What a match of \<^verbatim>\<open>resetPassword\<close> means: the document found stores the hash of the
  incoming token, and its expiry is later than now.
\<close>

lemma reset_match_sound:
  assumes "findOne (reset_filter (sha256_hex tok) now) us = Some u"
  shows "passwordResetToken u = Some (sha256_hex tok)
       \<and> (\<exists>t. passwordResetExpires u = Some t \<and> now < t)"
proof -
  obtain x where x: "find (reset_filter (sha256_hex tok) now) us = Some x"
    and u: "u = hide_password x"
    using assms by (auto simp: findOne_def)
  from x have "reset_filter (sha256_hex tok) now x"
    by (auto simp: find_Some_iff)
  then show ?thesis
    using u by (auto simp: reset_filter_def hide_password_def split: option.splits)
qed

text \<open>At time 4000 the same request sets Bob's new password and clears his reset fields.\<close>

lemma resetPassword_in_time_example:
  "fst (resetPassword env0 sample_model sample_hash 4000 reset_request world_ab) =
     Inr (createSendToken env0 4000
            (bob\<lparr>password := Some ''bcrypt:newpass99'', passwordConfirm := None,
                  passwordResetToken := None, passwordResetExpires := None\<rparr>) 200)
   \<and> users (snd (resetPassword env0 sample_model sample_hash 4000 reset_request world_ab)) =
     [alice, bob\<lparr>password := Some ''bcrypt:newpass99'', passwordConfirm := None,
                  passwordResetToken := None, passwordResetExpires := None\<rparr>]"
  by (simp add: resetPassword_def findOne_def reset_filter_def save_def hooked_def
      hide_password_def Let_def world_ab_def alice_def bob_def reset_request_def
      sample_model_def sample_hash_def)

subsection \<open>forgotPassword\<close>

text \<open>
  Claim C6. An email that no user has ends in status 404 and no effect. For a user
  found, the document with the reset-token hash and the expiry is saved first,
  without validation; then the mail is sent, once. When the mailer resolves, the
  response is 200 with the success message. When it throws, the document is saved
  again with both reset fields cleared, again without validation, nothing is sent a
  second time, and the request fails with status 500.
\<close>

theorem forgotPassword_flow:
  "((\<forall>u \<in> set (users w). b_email (req_body req) \<noteq> Some (email u)) \<longrightarrow>
      forgotPassword m sha256_hex sendEmail rnd now req w =
        (Inl (AppError (''There's no user with '' @ js_str (b_email (req_body req))
                          @ '' address'') 404), w))
   \<and> (findOne (by_email (b_email (req_body req))) (users w) = Some u
      \<and> saved = hooked m False (u\<lparr>passwordResetToken := Some (sha256_hex rnd),
                                 passwordResetExpires := Some (now + 600000)\<rparr>)
      \<and> msg = resetMail req saved rnd
      \<and> cleared = hooked m False (saved\<lparr>passwordResetToken := None, passwordResetExpires := None\<rparr>)
      \<longrightarrow>
        passwordResetToken saved = Some (sha256_hex rnd)
      \<and> passwordResetExpires saved = Some (now + 600000)
      \<and> passwordResetToken cleared = None \<and> passwordResetExpires cleared = None
      \<and> (sendEmail msg \<longrightarrow>
          forgotPassword m sha256_hex sendEmail rnd now req w =
            (Inr \<lparr>res_status = 200, status = ''success'', token = None, data_user = None,
                  message = Some ''Token sent to email''\<rparr>,
             w\<lparr>users := map (\<lambda>x. if user_id x = user_id u then saved\<lparr>password := password x\<rparr>
                                   else x) (users w),
               trace := trace w @ [Saved saved False, Emailed msg]\<rparr>))
      \<and> (\<not> sendEmail msg \<longrightarrow>
          forgotPassword m sha256_hex sendEmail rnd now req w =
            (Inl (AppError ''There was an error sending the email. Try again later.'' 500),
             w\<lparr>users := map (\<lambda>x. if user_id x = user_id u then cleared\<lparr>password := password x\<rparr>
                                   else x) (users w),
               trace := trace w @ [Saved saved False, Emailed msg, Saved cleared False]\<rparr>)))"
proof (intro conjI impI)
  assume "\<forall>u \<in> set (users w). b_email (req_body req) \<noteq> Some (email u)"
  then have "find (by_email (b_email (req_body req))) (users w) = None"
    by (simp add: find_None_iff by_email_def)
  then show "forgotPassword m sha256_hex sendEmail rnd now req w =
        (Inl (AppError (''There's no user with '' @ js_str (b_email (req_body req))
                          @ '' address'') 404), w)"
    by (simp add: forgotPassword_def find_None_findOne)
next
  assume h: "findOne (by_email (b_email (req_body req))) (users w) = Some u
      \<and> saved = hooked m False (u\<lparr>passwordResetToken := Some (sha256_hex rnd),
                                 passwordResetExpires := Some (now + 600000)\<rparr>)
      \<and> msg = resetMail req saved rnd
      \<and> cleared = hooked m False (saved\<lparr>passwordResetToken := None, passwordResetExpires := None\<rparr>)"
  show "passwordResetToken saved = Some (sha256_hex rnd)" using h by (simp add: hooked_reset_fields)
  show "passwordResetExpires saved = Some (now + 600000)" using h by (simp add: hooked_reset_fields)
  show "passwordResetToken cleared = None" using h by (simp add: hooked_reset_fields)
  show "passwordResetExpires cleared = None" using h by (simp add: hooked_reset_fields)
  {
    assume "sendEmail msg"
    with h show "forgotPassword m sha256_hex sendEmail rnd now req w =
            (Inr \<lparr>res_status = 200, status = ''success'', token = None, data_user = None,
                  message = Some ''Token sent to email''\<rparr>,
             w\<lparr>users := map (\<lambda>x. if user_id x = user_id u then saved\<lparr>password := password x\<rparr>
                                   else x) (users w),
               trace := trace w @ [Saved saved False, Emailed msg]\<rparr>)"
      by (simp add: forgotPassword_def createPasswordResetToken_def save_def Let_def
          hooked_reset_fields)
  next
    assume "\<not> sendEmail msg"
    with h show "forgotPassword m sha256_hex sendEmail rnd now req w =
            (Inl (AppError ''There was an error sending the email. Try again later.'' 500),
             w\<lparr>users := map (\<lambda>x. if user_id x = user_id u then cleared\<lparr>password := password x\<rparr>
                                   else x) (users w),
               trace := trace w @ [Saved saved False, Emailed msg, Saved cleared False]\<rparr>)"
      by (simp add: forgotPassword_def createPasswordResetToken_def save_def Let_def comp_def
          hooked_reset_fields cong: if_cong)
  }
qed

theorem forgotPassword_flow_witness:
  "forgotPassword sample_model sample_hash mailer_up ''tok-alice'' 1000
     (forgot_request ''carol@example.com'') world_ab =
     (Inl (AppError ''There's no user with carol@example.com address'' 404), world_ab)
   \<and> fst (forgotPassword sample_model sample_hash mailer_up ''tok-alice'' 1000
            (forgot_request ''alice@example.com'') world_ab) =
       Inr \<lparr>res_status = 200, status = ''success'', token = None, data_user = None,
            message = Some ''Token sent to email''\<rparr>
   \<and> users (snd (forgotPassword sample_model sample_hash mailer_up ''tok-alice'' 1000
            (forgot_request ''alice@example.com'') world_ab)) =
       [alice\<lparr>passwordResetToken := Some (sample_hash ''tok-alice''),
               passwordResetExpires := Some 601000\<rparr>, bob]
   \<and> fst (forgotPassword sample_model sample_hash mailer_down ''tok-alice'' 1000
            (forgot_request ''alice@example.com'') world_ab) =
       Inl (AppError ''There was an error sending the email. Try again later.'' 500)
   \<and> users (snd (forgotPassword sample_model sample_hash mailer_down ''tok-alice'' 1000
            (forgot_request ''alice@example.com'') world_ab)) = [alice, bob]
   \<and> length (trace (snd (forgotPassword sample_model sample_hash mailer_down ''tok-alice'' 1000
            (forgot_request ''alice@example.com'') world_ab))) = 3"
proof -
  let ?req = "forgot_request ''alice@example.com''"
  define u where "u = hide_password alice"
  define u1 where "u1 = hooked sample_model False
      (u\<lparr>passwordResetToken := Some (sample_hash ''tok-alice''),
         passwordResetExpires := Some (1000 + 600000)\<rparr>)"
  define msg where "msg = resetMail ?req u1 ''tok-alice''"
  define u3 where "u3 = hooked sample_model False
      (u1\<lparr>passwordResetToken := None, passwordResetExpires := None\<rparr>)"
  have unknown: "\<forall>x \<in> set (users world_ab).
      b_email (req_body (forgot_request ''carol@example.com'')) \<noteq> Some (email x)"
    by (simp add: world_ab_def alice_def bob_def forgot_request_def)
  have found: "findOne (by_email (b_email (req_body ?req))) (users world_ab) = Some u"
    by (simp add: findOne_def by_email_def u_def world_ab_def alice_def bob_def
        forgot_request_def)
  have 1: "forgotPassword sample_model sample_hash mailer_up ''tok-alice'' 1000
     (forgot_request ''carol@example.com'') world_ab =
     (Inl (AppError ''There's no user with carol@example.com address'' 404), world_ab)"
    using unknown
      forgotPassword_flow [where req = "forgot_request ''carol@example.com''" and w = world_ab
        and m = sample_model and sha256_hex = sample_hash and sendEmail = mailer_up
        and rnd = "''tok-alice''" and now = 1000]
    by (simp add: js_str_def forgot_request_def bare_request_def no_body_def)
  have 2: "forgotPassword sample_model sample_hash mailer_up ''tok-alice'' 1000 ?req world_ab =
      (Inr \<lparr>res_status = 200, status = ''success'', token = None, data_user = None,
            message = Some ''Token sent to email''\<rparr>,
       world_ab\<lparr>users := map (\<lambda>x. if user_id x = user_id u then u1\<lparr>password := password x\<rparr>
                                   else x) (users world_ab),
         trace := trace world_ab @ [Saved u1 False, Emailed msg]\<rparr>)"
    using found u1_def msg_def u3_def
      forgotPassword_flow [where req = ?req and w = world_ab
        and m = sample_model and sha256_hex = sample_hash and sendEmail = mailer_up
        and rnd = "''tok-alice''" and now = 1000 and u = u and saved = u1 and msg = msg and cleared = u3]
    by (simp add: mailer_up_def)
  have 3: "forgotPassword sample_model sample_hash mailer_down ''tok-alice'' 1000 ?req world_ab =
      (Inl (AppError ''There was an error sending the email. Try again later.'' 500),
       world_ab\<lparr>users := map (\<lambda>x. if user_id x = user_id u then u3\<lparr>password := password x\<rparr>
                                   else x) (users world_ab),
         trace := trace world_ab @ [Saved u1 False, Emailed msg, Saved u3 False]\<rparr>)"
    using found u1_def msg_def u3_def
      forgotPassword_flow [where req = ?req and w = world_ab
        and m = sample_model and sha256_hex = sample_hash and sendEmail = mailer_down
        and rnd = "''tok-alice''" and now = 1000 and u = u and saved = u1 and msg = msg and cleared = u3]
    by (simp add: mailer_down_def)
  show ?thesis
    unfolding 1 2 3
    by (simp add: u_def u1_def u3_def hooked_def hide_password_def world_ab_def alice_def bob_def
        sample_model_def)
qed

subsection \<open>The reset-field invariant\<close>

lemma reset_fields_inv_hooked [simp]: "reset_fields_inv (hooked m b u) = reset_fields_inv u"
  by (simp add: reset_fields_inv_def hooked_reset_fields)

lemma reset_fields_inv_password [simp]:
  "reset_fields_inv (u\<lparr>password := p\<rparr>) = reset_fields_inv u"
  "reset_fields_inv (u\<lparr>passwordConfirm := c\<rparr>) = reset_fields_inv u"
  by (simp_all add: reset_fields_inv_def)


lemma find_inv:
  "world_inv w \<Longrightarrow> find P (users w) = Some u \<Longrightarrow> reset_fields_inv u"
  by (auto simp: world_inv_def list_all_iff find_Some_iff)

lemma findOne_inv:
  "world_inv w \<Longrightarrow> findOne P (users w) = Some u \<Longrightarrow> reset_fields_inv u"
  by (auto simp: findOne_def hide_password_def dest: find_inv)












lemma updatePassword_example:
  "users (snd (updatePassword env0 sample_model 1000 update_request world_ab)) =
     [alice\<lparr>password := Some ''bcrypt:newpass99''\<rparr>, bob]"
  by (simp add: updatePassword_def findById_select_password_def findOne_select_password_def
      save_def hooked_def hide_password_def Let_def world_ab_def alice_def bob_def
      update_request_def sample_model_def)

lemma signup_example:
  "map email (users (snd (signup env0 sample_model ''u3'' 1000 signup_request world_ab))) =
     [''alice@example.com'', ''bob@example.com'', ''carol@example.com'']"
  by (simp add: signup_def create_def hooked_def Let_def world_ab_def alice_def bob_def
      sample_model_def
      signup_request_def)

end
